theory Spec2Isabelle
  imports Main "HOL-Library.Word" "HOL-Library.Sublist"
begin

section \<open>Strings\<close>

text \<open>
  A Python \<open>str\<close> is modelled as a \<open>string\<close> whose characters are the code points
  below 256. \<open>str n\<close> is Python's decimal rendering of a non-negative \<open>int\<close>, as an
  f-string produces it for \<open>{size}\<close>.
\<close>

fun str :: "nat \<Rightarrow> string" where
  "str n = (if n < 10 then [char_of (48 + n)]
            else str (n div 10) @ [char_of (48 + n mod 10)])"

declare str.simps [simp del]

text \<open>\<open>quoted s\<close> is the f-string fragment \<^verbatim>\<open>'{s}'\<close>.\<close>

definition quoted :: "string \<Rightarrow> string" where
  "quoted s = [CHR 0x27] @ s @ [CHR 0x27]"

text \<open>\<open>str.isspace\<close>, \<open>str.strip()\<close> and \<open>str.lower()\<close> on code points below 256.\<close>

definition isspace :: "char \<Rightarrow> bool" where
  "isspace c = (let n = (of_char c :: nat) in
     (9 \<le> n \<and> n \<le> 13) \<or> (28 \<le> n \<and> n \<le> 32) \<or> n = 133 \<or> n = 160)"

definition strip :: "string \<Rightarrow> string" where
  "strip s = rev (dropWhile isspace (rev (dropWhile isspace s)))"

definition lower_char :: "char \<Rightarrow> char" where
  "lower_char c = (let n = (of_char c :: nat) in
     if (65 \<le> n \<and> n \<le> 90) \<or> (192 \<le> n \<and> n \<le> 222 \<and> n \<noteq> 215)
     then char_of (n + 32) else c)"

definition lower :: "string \<Rightarrow> string" where
  "lower s = map lower_char s"

section \<open>Paths\<close>

text \<open>
  A path is the list of its components, read from the process's working directory:
  \<open>Path.cwd()\<close> is the empty list, \<open>Path(s)\<close> has the one component \<open>s\<close>, and
  \<open>p / s\<close> appends a component. A component is kept as it is spelled, which is what
  \<open>pathlib\<close> does for a name without separators and dots of its own, as the names are
  that this program appends (\<open>manifest\<close>, \<open>logo.png\<close>, \<open>icon-32x32.png\<close>, ...).
\<close>

type_synonym path = "string list"

definition Path_cwd :: path where
  "Path_cwd = []"

definition Path :: "string \<Rightarrow> path" where
  "Path s = [s]"

definition joinpath :: "path \<Rightarrow> string \<Rightarrow> path" where
  "joinpath p s = p @ [s]"

section \<open>Images\<close>

text \<open>
  An image is its mode, its size (width, height; natural numbers) and its pixels, each
  pixel given by its RGBA value. The resampling filter,
  the mask blend of \<open>paste\<close> and the mode conversion are the imaging library's; they
  are parameters of the model (\<open>pil\<close>).
\<close>

type_synonym rgba = "8 word \<times> 8 word \<times> 8 word \<times> 8 word"

record image =
  im_mode :: string
  im_size :: "nat \<times> nat"
  im_pixels :: "int \<Rightarrow> int \<Rightarrow> rgba"

record pil =
  LANCZOS :: "image \<Rightarrow> nat \<times> nat \<Rightarrow> int \<Rightarrow> int \<Rightarrow> rgba"
  BLEND :: "8 word \<Rightarrow> rgba \<Rightarrow> rgba \<Rightarrow> rgba"
  CONVERT :: "image \<Rightarrow> string \<Rightarrow> int \<Rightarrow> int \<Rightarrow> rgba"

definition alpha :: "rgba \<Rightarrow> 8 word" where
  "alpha p = (case p of (r, g, b, a) \<Rightarrow> a)"

text \<open>
  \<open>img.resize(size, RESAMPLE)\<close>: a new image of exactly the requested size. The sizes
  of this program are positive; the library's refusal of an empty size is not modelled.
\<close>

definition resize :: "pil \<Rightarrow> image \<Rightarrow> nat \<times> nat \<Rightarrow> image" where
  "resize L img sz = \<lparr>im_mode = im_mode img, im_size = sz, im_pixels = LANCZOS L img sz\<rparr>"

text \<open>\<open>img.convert(mode)\<close>: a copy when the image already has the mode.\<close>

definition convert :: "pil \<Rightarrow> image \<Rightarrow> string \<Rightarrow> image" where
  "convert L img m =
     (if im_mode img = m then img
      else \<lparr>im_mode = m, im_size = im_size img, im_pixels = CONVERT L img m\<rparr>)"

text \<open>\<open>Image.new(mode, size, color)\<close>.\<close>

definition Image_new :: "string \<Rightarrow> nat \<times> nat \<Rightarrow> rgba \<Rightarrow> image" where
  "Image_new m sz color = \<lparr>im_mode = m, im_size = sz, im_pixels = (\<lambda>x y. color)\<rparr>"

text \<open>
  \<open>canvas.paste(im, offset, mask)\<close>: inside the box of \<open>im\<close> placed at \<open>offset\<close>
  (clipped to the canvas) each pixel is the blend of the canvas pixel and the pixel of
  \<open>im\<close>, weighted by the alpha of the mask; every other pixel is left as it was.
\<close>

definition in_box :: "int \<times> int \<Rightarrow> nat \<times> nat \<Rightarrow> nat \<times> nat \<Rightarrow> int \<Rightarrow> int \<Rightarrow> bool" where
  "in_box offset inner outer x y =
     (fst offset \<le> x \<and> x < fst offset + int (fst inner) \<and>
      snd offset \<le> y \<and> y < snd offset + int (snd inner) \<and>
      0 \<le> x \<and> x < int (fst outer) \<and> 0 \<le> y \<and> y < int (snd outer))"

definition paste :: "pil \<Rightarrow> image \<Rightarrow> image \<Rightarrow> int \<times> int \<Rightarrow> image \<Rightarrow> image" where
  "paste L canvas im offset msk =
     canvas\<lparr>im_pixels := (\<lambda>x y.
       if in_box offset (im_size im) (im_size canvas) x y
       then BLEND L (alpha (im_pixels msk (x - fst offset) (y - snd offset)))
              (im_pixels canvas x y) (im_pixels im (x - fst offset) (y - snd offset))
       else im_pixels canvas x y)\<rparr>"

section \<open>The manifest document\<close>

record icon =
  src :: string
  sizes :: string
  type :: string
  purpose :: string

record manifest =
  name :: string
  short_name :: string
  description :: string
  lang :: string
  dir :: string
  start_url :: string
  scope :: string
  display :: string
  orientation :: string
  theme_color :: string
  background_color :: string
  icons :: "icon list"
  categories :: "string list"

section \<open>The file system and the process\<close>

text \<open>
  What a file holds: a PNG of an image (with the \<open>optimize\<close> flag it was saved with),
  an image file of another format (\<open>Picture\<close>, by what its decoder yields), the ICO
  container the encoder was asked for (the image handed over and the declared sizes),
  the JSON text of a manifest document, the empty file a fresh temporary file is, or
  other bytes.
\<close>

datatype content =
    PNG image bool
  | Picture image
  | ICO image "(nat \<times> nat) list"
  | JSON manifest
  | Empty
  | Bytes string

text \<open>
  What \<open>Image.open\<close> decodes. PNG is lossless. The ICO files of this model are the
  ones the program writes; it never reads one back.
\<close>

fun decode :: "content \<Rightarrow> image option" where
  "decode (PNG img opt) = Some img"
| "decode (Picture img) = Some img"
| "decode c = None"

datatype exn = FileNotFoundError string | OSError string | SystemExit int

datatype io_op = Mkdir path | Open_image path | Save path | Mktemp

text \<open>
  The world: directories, files, what was printed, \<open>sys.argv\<close>, the name the next
  temporary file gets, how a path prints, and the failures of the environment: an
  operation raises \<open>io_error w op\<close> when that is not \<open>None\<close> (permissions, a full
  disk, ...), and \<open>strerror w op\<close> is the message of the error the operation raises
  when the state of the file system makes it fail.
\<close>

record world =
  dirs :: "path set"
  files :: "path \<Rightarrow> content option"
  stdout :: "string list"
  sys_argv :: "string list"
  tmp_name :: path
  path_str :: "path \<Rightarrow> string"
  io_error :: "io_op \<Rightarrow> exn option"
  strerror :: "io_op \<Rightarrow> string"

type_synonym 'a io = "world \<Rightarrow> (exn + 'a) \<times> world"

definition return_io :: "'a \<Rightarrow> 'a io" where
  "return_io x w = (Inr x, w)"

text \<open>Sequencing: an exception of the first step skips the rest.\<close>

definition bind_io :: "'a io \<Rightarrow> ('a \<Rightarrow> 'b io) \<Rightarrow> 'b io" where
  "bind_io m f w = (case m w of (Inl e, w') \<Rightarrow> (Inl e, w') | (Inr x, w') \<Rightarrow> f x w')"

definition print :: "string \<Rightarrow> world \<Rightarrow> world" where
  "print s w = w\<lparr>stdout := stdout w @ [s]\<rparr>"

definition is_file :: "world \<Rightarrow> path \<Rightarrow> bool" where
  "is_file w p = (files w p \<noteq> None)"

text \<open>
  \<open>p.mkdir(parents=True, exist_ok=True)\<close>: fails when the path or one of its parents
  is a file; otherwise the directory and its parents exist afterwards.
\<close>

definition mkdir :: "path \<Rightarrow> unit io" where
  "mkdir p w =
     (case io_error w (Mkdir p) of
        Some e \<Rightarrow> (Inl e, w)
      | None \<Rightarrow>
          if list_ex (\<lambda>q. files w q \<noteq> None) (tl (prefixes p))
          then (Inl (OSError (strerror w (Mkdir p))), w)
          else (Inr (), w\<lparr>dirs := dirs w \<union> set (tl (prefixes p))\<rparr>))"

text \<open>
  Writing a file (\<open>img.save\<close>, \<open>open("w")\<close> with \<open>json.dump\<close>), taken as one
  step: it stores the whole content or fails and stores nothing.
\<close>

definition write_file :: "path \<Rightarrow> content \<Rightarrow> unit io" where
  "write_file p c w =
     (case io_error w (Save p) of
        Some e \<Rightarrow> (Inl e, w)
      | None \<Rightarrow>
          if p \<in> dirs w then (Inl (OSError (strerror w (Save p))), w)
          else (Inr (), w\<lparr>files := (files w)(p \<mapsto> c)\<rparr>))"

text \<open>
  \<open>Image.open(path)\<close> with the pixel data loaded: \<open>FileNotFoundError\<close> when the path
  names no file, another \<open>OSError\<close> when the file is no image.
\<close>

definition Image_open :: "path \<Rightarrow> image io" where
  "Image_open p w =
     (case io_error w (Open_image p) of
        Some e \<Rightarrow> (Inl e, w)
      | None \<Rightarrow>
          (case files w p of
             None \<Rightarrow> (Inl (FileNotFoundError (strerror w (Open_image p))), w)
           | Some c \<Rightarrow>
               (case decode c of
                  None \<Rightarrow> (Inl (OSError (strerror w (Open_image p))), w)
                | Some img \<Rightarrow> (Inr img, w))))"

text \<open>
  \<open>tempfile.NamedTemporaryFile(suffix=".png", delete=False)\<close>, opened and closed: an
  empty file under a name that was free.
\<close>

definition NamedTemporaryFile :: "path io" where
  "NamedTemporaryFile w =
     (case io_error w Mktemp of
        Some e \<Rightarrow> (Inl e, w)
      | None \<Rightarrow>
          if files w (tmp_name w) \<noteq> None \<or> tmp_name w \<in> dirs w
          then (Inl (OSError (strerror w Mktemp)), w)
          else (Inr (tmp_name w), w\<lparr>files := (files w)(tmp_name w \<mapsto> Empty)\<rparr>))"

text \<open>
  \<open>p.unlink(missing_ok=True)\<close> on a file of the process's own; the removal itself is
  taken to succeed.
\<close>

definition unlink :: "path \<Rightarrow> world \<Rightarrow> world" where
  "unlink p w = w\<lparr>files := (files w)(p := None)\<rparr>"

section \<open>The program\<close>

definition MANIFEST_SIZES :: "nat list" where
  "MANIFEST_SIZES = [32, 48, 72, 128, 180, 192, 256, 384, 512]"

definition MANIFEST_PREFIXES :: "string list" where
  "MANIFEST_PREFIXES = [''icon'', ''maskable-icon'']"

definition CANVAS_SIZE :: "nat \<times> nat" where
  "CANVAS_SIZE = (500, 500)"

definition INNER_SIZE :: "nat \<times> nat" where
  "INNER_SIZE = (320, 320)"

definition MANIFEST_ICON_BASE_PATH :: string where
  "MANIFEST_ICON_BASE_PATH = ''/assets/media/img/manifest''"

definition resolve_source_path :: "string \<Rightarrow> path io" where
  "resolve_source_path filename w =
     (let path = joinpath Path_cwd filename in
      if \<not> is_file w path
      then (Inl (FileNotFoundError
              (quoted filename @ '' not found in the current directory (''
                 @ path_str w Path_cwd @ '').'')), w)
      else (Inr path, w))"

definition open_and_convert_img_to_rgb :: "pil \<Rightarrow> path \<Rightarrow> image io" where
  "open_and_convert_img_to_rgb L path =
     bind_io (Image_open path) (\<lambda>img. return_io (convert L img ''RGBA''))"

definition centre_on_canvas :: "pil \<Rightarrow> image \<Rightarrow> nat \<times> nat \<Rightarrow> nat \<times> nat \<Rightarrow> image" where
  "centre_on_canvas L img canvas_size inner_size =
     (let resized = resize L img inner_size;
          canvas = Image_new ''RGBA'' canvas_size (0, 0, 0, 0);
          offset = ((int (fst canvas_size) - int (fst inner_size)) div 2,
                    (int (snd canvas_size) - int (snd inner_size)) div 2)
      in paste L canvas resized offset resized)"

definition save_png :: "image \<Rightarrow> path \<Rightarrow> unit io" where
  "save_png img path = write_file path (PNG img True)"

text \<open>The f-string \<^verbatim>\<open>{prefix}-{size}x{size}.png\<close>.\<close>

definition icon_filename :: "string \<Rightarrow> nat \<Rightarrow> string" where
  "icon_filename pfx sz = pfx @ ''-'' @ str sz @ ''x'' @ str sz @ ''.png''"

text \<open>
  \<open>generate_manifest_icons\<close>: the two loops run over the module's \<open>MANIFEST_SIZES\<close>
  and \<open>MANIFEST_PREFIXES\<close>; here the two tuples are arguments, and
  \<open>generate_assets\<close> passes the module's values.
\<close>

fun save_prefixes :: "image \<Rightarrow> path \<Rightarrow> nat \<Rightarrow> string list \<Rightarrow> unit io" where
  "save_prefixes resized manifest_dir sz [] = return_io ()"
| "save_prefixes resized manifest_dir sz (pfx # rest) =
     bind_io (save_png resized (joinpath manifest_dir (icon_filename pfx sz)))
       (\<lambda>_. save_prefixes resized manifest_dir sz rest)"

fun save_sizes :: "pil \<Rightarrow> string list \<Rightarrow> image \<Rightarrow> path \<Rightarrow> nat list \<Rightarrow> unit io" where
  "save_sizes L pfxs base manifest_dir [] = return_io ()"
| "save_sizes L pfxs base manifest_dir (sz # rest) =
     bind_io (save_prefixes (resize L base (sz, sz)) manifest_dir sz pfxs)
       (\<lambda>_. save_sizes L pfxs base manifest_dir rest)"

definition generate_manifest_icons ::
  "pil \<Rightarrow> nat list \<Rightarrow> string list \<Rightarrow> image \<Rightarrow> path \<Rightarrow> unit io" where
  "generate_manifest_icons L size_set pfxs base manifest_dir =
     bind_io (mkdir manifest_dir) (\<lambda>_. save_sizes L pfxs base manifest_dir size_set)"

text \<open>
  \<open>generate_manifest_json\<close>: the loop appends two entries per size; the sizes are an
  argument as above.
\<close>

fun append_icons :: "nat list \<Rightarrow> icon list \<Rightarrow> icon list" where
  "append_icons [] icon_list = icon_list"
| "append_icons (sz # rest) icon_list =
     (let size_str = str sz @ ''x'' @ str sz in
      append_icons rest
        (icon_list
         @ [\<lparr>src = MANIFEST_ICON_BASE_PATH @ ''/icon-'' @ size_str @ ''.png'',
              sizes = size_str, type = ''image/png'', purpose = ''any''\<rparr>]
         @ [\<lparr>src = MANIFEST_ICON_BASE_PATH @ ''/maskable-icon-'' @ size_str @ ''.png'',
              sizes = size_str, type = ''image/png'', purpose = ''maskable''\<rparr>]))"

definition manifest_document :: "nat list \<Rightarrow> string \<Rightarrow> manifest" where
  "manifest_document size_set project_folder =
     \<lparr>name = ''Nom complet de l'application'',
      short_name = project_folder,
      description = ''Description de l'application.'',
      lang = ''fr-FR'',
      dir = ''ltr'',
      start_url = ''/'',
      scope = ''/'',
      display = ''standalone'',
      orientation = ''portrait-primary'',
      theme_color = ''#ffffff'',
      background_color = ''#ffffff'',
      icons = append_icons size_set [],
      categories = []\<rparr>"

definition generate_manifest_json :: "nat list \<Rightarrow> path \<Rightarrow> string \<Rightarrow> unit io" where
  "generate_manifest_json size_set out_dir project_folder =
     write_file (joinpath out_dir ''manifest.json'')
       (JSON (manifest_document size_set project_folder))"

definition generate_favicon :: "pil \<Rightarrow> image \<Rightarrow> path \<Rightarrow> unit io" where
  "generate_favicon L source dest =
     (let ico_sizes = [(32, 32), (48, 48), (64, 64), (128, 128), (256, 256)];
          thumb = resize L source (32, 32)
      in write_file dest (ICO thumb ico_sizes))"

definition generate_logo :: "pil \<Rightarrow> image \<Rightarrow> path \<Rightarrow> nat \<Rightarrow> unit io" where
  "generate_logo L source dest sz = save_png (resize L source (sz, sz)) dest"

text \<open>
  The \<open>if center:\<close> branch of \<open>generate_assets\<close>: the temporary file, the
  \<open>try\<close> body (compose, save without \<open>optimize\<close>, decode again) and the
  \<open>finally\<close> clause, which runs whatever the body did.
\<close>

definition centred_base :: "pil \<Rightarrow> image \<Rightarrow> image io" where
  "centred_base L original =
     bind_io NamedTemporaryFile (\<lambda>tmp_path w.
       (case bind_io
               (write_file tmp_path
                  (PNG (centre_on_canvas L original CANVAS_SIZE INNER_SIZE) False))
               (\<lambda>_. open_and_convert_img_to_rgb L tmp_path) w of
          (r, w') \<Rightarrow> (r, unlink tmp_path w')))"

definition generate_assets :: "pil \<Rightarrow> path \<Rightarrow> string \<Rightarrow> bool \<Rightarrow> unit io" where
  "generate_assets L source_path project_folder center =
     (let out = Path project_folder in
      bind_io (mkdir out) (\<lambda>_.
      bind_io (open_and_convert_img_to_rgb L source_path) (\<lambda>original.
      bind_io (if center then centred_base L original else return_io original) (\<lambda>base.
      bind_io (generate_manifest_icons L MANIFEST_SIZES MANIFEST_PREFIXES base
                 (joinpath out ''manifest'')) (\<lambda>_.
      bind_io (generate_manifest_json MANIFEST_SIZES out project_folder) (\<lambda>_.
      bind_io (generate_logo L original (joinpath out ''logo.png'') 192) (\<lambda>_.
      bind_io (generate_favicon L original (joinpath out ''favicon.ico'')) (\<lambda>_ w.
        (Inr (),
         print (''Ic'' @ [CHR 0xF4] @ ''nes et manifest.json sauvegard'' @ [CHR 0xE9]
                @ ''s dans '' @ [CHR 0x27] @ path_str w out @ ''/'' @ [CHR 0x27] @ ''.'')
           w)))))))))"

text \<open>\<open>_parse_bool\<close>.\<close>

definition parse_bool :: "string \<Rightarrow> string \<Rightarrow> bool io" where
  "parse_bool val flag w =
     (let normalised = lower (strip val) in
      if normalised \<noteq> ''true'' \<and> normalised \<noteq> ''false''
      then (Inl (SystemExit 1),
            print (''Error: '' @ quoted flag @ '' must be 'true' or 'false', got ''
                   @ quoted val @ ''.'') w)
      else (Inr (normalised = ''true''), w))"

definition usage :: string where
  "usage = ''Utilisation: python main.py <nom_image> <nom_du_projet> [centrer sur le canvas]''
     @ [CHR 0x0A]
     @ ''  - Si vous mettez 'false', l'image sera utilis'' @ [CHR 0xE9]
     @ ''e telle quelle, sans centrage ni redimensionnement.''"

text \<open>
  \<open>main\<close>. \<open>argv\<close> is \<open>None\<close> when the caller gives none; \<open>cli_args\<close> is
  \<^verbatim>\<open>(argv or sys.argv)[1:]\<close>. An exception that leaves \<open>main\<close> ends the process,
  \<open>SystemExit c\<close> with the exit code \<open>c\<close>.
\<close>

definition cli_args :: "string list option \<Rightarrow> world \<Rightarrow> string list" where
  "cli_args argv w =
     drop 1 (case argv of None \<Rightarrow> sys_argv w
             | Some a \<Rightarrow> if a = [] then sys_argv w else a)"

definition main :: "pil \<Rightarrow> string list option \<Rightarrow> unit io" where
  "main L argv w =
     (let args = cli_args argv w in
      if \<not> (2 \<le> length args \<and> length args \<le> 3)
      then (Inl (SystemExit 1), print usage w)
      else
        (let filename = args ! 0; project_folder = args ! 1 in
         case (if length args = 3 then parse_bool (args ! 2) ''center'' else return_io True) w of
           (Inl e, w1) \<Rightarrow> (Inl e, w1)
         | (Inr center, w1) \<Rightarrow>
             (case bind_io (resolve_source_path filename)
                     (\<lambda>source_path. generate_assets L source_path project_folder center) w1 of
                (Inl (FileNotFoundError msg), w2) \<Rightarrow>
                   (Inl (SystemExit 1), print (''File error: '' @ msg) w2)
              | (Inl (OSError msg), w2) \<Rightarrow>
                   (Inl (SystemExit 1), print (''I/O error: '' @ msg) w2)
              | (Inl (SystemExit c), w2) \<Rightarrow> (Inl (SystemExit c), w2)
              | (Inr u, w2) \<Rightarrow> (Inr (), w2))))"

definition exit_code :: "(exn + unit) \<Rightarrow> int" where
  "exit_code r = (case r of Inr u \<Rightarrow> 0 | Inl (SystemExit c) \<Rightarrow> c | Inl e \<Rightarrow> 1)"

section \<open>Auxiliary definitions\<close>

text \<open>The number a string of decimal digits denotes; it inverts \<open>str\<close>.\<close>

definition val10 :: "string \<Rightarrow> nat" where
  "val10 s = foldl (\<lambda>a c. 10 * a + (of_char c - 48)) 0 s"

text \<open>
  The files after the two loops of \<open>generate_manifest_icons\<close> have run to their end:
  for each size in turn, for each prefix in turn, the PNG of the resized base is stored
  under its name.
\<close>

definition emitted ::
  "pil \<Rightarrow> image \<Rightarrow> path \<Rightarrow> nat list \<Rightarrow> string list \<Rightarrow> (path \<Rightarrow> content option) \<Rightarrow> path \<Rightarrow> content option" where
  "emitted L base d S P f =
     fold (\<lambda>sz. fold (\<lambda>pfx g. g(joinpath d (icon_filename pfx sz) \<mapsto> PNG (resize L base (sz, sz)) True)) P) S f"

text \<open>
  A sample run: an opaque white 1000 x 1000 RGB picture \<open>logo.jpg\<close> in an otherwise
  empty working directory, no failing operation, and a toy imaging library (nearest
  corner resampling, all-or-nothing blend).
\<close>

definition sample_image :: image where
  "sample_image = \<lparr>im_mode = ''RGB'', im_size = (1000, 1000), im_pixels = (\<lambda>x y. (255, 255, 255, 255))\<rparr>"

definition sample_pil :: pil where
  "sample_pil = \<lparr>LANCZOS = (\<lambda>img sz x y. im_pixels img 0 0),
            BLEND = (\<lambda>a d s. if a = 0 then d else s),
            CONVERT = (\<lambda>img m. im_pixels img)\<rparr>"

definition sample_world :: world where
  "sample_world = \<lparr>dirs = {}, files = [[''logo.jpg''] \<mapsto> Picture sample_image], stdout = [],
             sys_argv = [''main.py'', ''logo.jpg'', ''myapp''],
             tmp_name = [''tmp'', ''tmpk3x9.png''],
             path_str = (\<lambda>p. concat (map (\<lambda>s. ''/'' @ s) p)),
             io_error = (\<lambda>op. None), strerror = (\<lambda>op. ''error'')\<rparr>"

text \<open>
  The sizes an ICO file embeds. The rule is the imaging library's, not this program's:
  Pillow documents for the \<open>sizes\<close> parameter of its ICO writer that any size bigger
  than the image being saved, or bigger than 256, is ignored.
\<close>

definition ico_embedded_sizes :: "content \<Rightarrow> (nat \<times> nat) list" where
  "ico_embedded_sizes c =
     (case c of
        ICO img szs \<Rightarrow>
          filter (\<lambda>(w, h). w \<le> fst (im_size img) \<and> h \<le> snd (im_size img) \<and> w \<le> 256 \<and> h \<le> 256) szs
      | _ \<Rightarrow> [])"

text \<open>The sample world on a full disk: saving the temporary PNG fails.\<close>

definition sample_world_full_disk :: world where
  "sample_world_full_disk = sample_world\<lparr>io_error :=
     (\<lambda>op. if op = Save [''tmp'', ''tmpk3x9.png''] then Some (OSError ''No space left on device'')
           else None)\<rparr>"

section \<open>Lemmas\<close>

lemma val10_str: "val10 (str n) = n"
proof (induction n rule: str.induct)
  case (1 n)
  show ?case
  proof (cases "n < 10")
    case True
    then show ?thesis by (simp add: str.simps[of n] val10_def)
  next
    case False
    with 1 have "val10 (str (n div 10)) = n div 10" by simp
    with False show ?thesis
      by (simp add: str.simps[of n] val10_def)
  qed
qed

lemma str_inj: "str m = str n \<Longrightarrow> m = n"
  by (metis val10_str)

lemma str_digits: "c \<in> set (str n) \<Longrightarrow> 48 \<le> (of_char c :: nat) \<and> (of_char c :: nat) \<le> 57"
proof (induction n rule: str.induct)
  case (1 n)
  show ?case
  proof (cases "n < 10")
    case True
    with 1(2) show ?thesis by (simp add: str.simps[of n])
  next
    case False
    with 1 show ?thesis
      by (auto simp add: str.simps[of n])
  qed
qed

lemma x_notin_str: "CHR ''x'' \<notin> set (str n)"
  using str_digits[of "CHR ''x''" n] by auto

lemma split_at_first:
  "x \<notin> set xs \<Longrightarrow> x \<notin> set xs' \<Longrightarrow> xs @ x # ys = xs' @ x # ys'
     \<Longrightarrow> xs = xs' \<and> ys = ys'"
proof (induction xs arbitrary: xs')
  case Nil
  then show ?case by (cases xs') auto
next
  case (Cons a xs)
  then show ?case by (cases xs') auto
qed

lemma icon_filename_inj:
  assumes "icon_filename p s = icon_filename p' s'"
  shows "p = p' \<and> s = s'"
proof -
  from assms have "rev (icon_filename p s) = rev (icon_filename p' s')" by simp
  then have e: "rev (str s) @ CHR ''x'' # (rev (str s) @ CHR ''-'' # rev p)
              = rev (str s') @ CHR ''x'' # (rev (str s') @ CHR ''-'' # rev p')"
    by (simp add: icon_filename_def)
  have nx: "CHR ''x'' \<notin> set (rev (str s))" "CHR ''x'' \<notin> set (rev (str s'))"
    using x_notin_str by simp_all
  have sr: "rev (str s) = rev (str s') \<and>
        rev (str s) @ CHR ''-'' # rev p = rev (str s') @ CHR ''-'' # rev p'"
    by (rule split_at_first[OF nx e])
  from sr have "str s = str s'" by simp
  then have s: "s = s'" by (rule str_inj)
  from sr s have "rev p = rev p'" by simp
  with s show ?thesis by simp
qed

lemma bind_io_Inr:
  "bind_io m f w = (Inr y, w'') \<longleftrightarrow> (\<exists>x w'. m w = (Inr x, w') \<and> f x w' = (Inr y, w''))"
  by (auto simp: bind_io_def split: prod.splits sum.splits)

lemma mkdir_Inr:
  "mkdir p w = (Inr u, w') \<Longrightarrow> w' = w\<lparr>dirs := dirs w \<union> set (tl (prefixes p))\<rparr>"
  by (auto simp: mkdir_def split: option.splits if_splits)

lemma write_file_Inr:
  "write_file p c w = (Inr u, w') \<Longrightarrow> w' = w\<lparr>files := (files w)(p \<mapsto> c)\<rparr>"
  by (auto simp: write_file_def split: option.splits if_splits)

lemma write_file_Inl: "write_file p c w = (Inl e, w') \<Longrightarrow> w' = w"
  by (auto simp: write_file_def split: option.splits if_splits)

lemma Image_open_snd: "snd (Image_open p w) = w"
  by (auto simp: Image_open_def split: option.splits)

lemma Image_open_dirs:
  "Image_open p (w\<lparr>dirs := d\<rparr>) = (fst (Image_open p w), w\<lparr>dirs := d\<rparr>)"
  by (auto simp: Image_open_def split: option.splits)

lemma open_and_convert_snd: "snd (open_and_convert_img_to_rgb L p w) = w"
  using Image_open_snd[of p w]
  by (auto simp: open_and_convert_img_to_rgb_def bind_io_def return_io_def split: prod.splits sum.splits)

lemma open_and_convert_dirs:
  "open_and_convert_img_to_rgb L p (w\<lparr>dirs := d\<rparr>)
     = (fst (open_and_convert_img_to_rgb L p w), w\<lparr>dirs := d\<rparr>)"
  using Image_open_snd[of p w]
  by (auto simp: open_and_convert_img_to_rgb_def bind_io_def return_io_def Image_open_dirs
           split: prod.splits sum.splits)

lemma save_prefixes_Inr:
  "save_prefixes r d sz P w = (Inr u, w') \<Longrightarrow>
     w' = w\<lparr>files := fold (\<lambda>pfx g. g(joinpath d (icon_filename pfx sz) \<mapsto> PNG r True)) P (files w)\<rparr>"
proof (induction P arbitrary: w)
  case Nil
  then show ?case by (simp add: return_io_def)
next
  case (Cons pfx P)
  from Cons.prems obtain w1 where
    a: "save_png r (joinpath d (icon_filename pfx sz)) w = (Inr (), w1)"
    and b: "save_prefixes r d sz P w1 = (Inr u, w')"
    by (auto simp: bind_io_Inr)
  from a have "w1 = w\<lparr>files := (files w)(joinpath d (icon_filename pfx sz) \<mapsto> PNG r True)\<rparr>"
    unfolding save_png_def by (rule write_file_Inr)
  with Cons.IH[OF b] show ?case by simp
qed

lemma save_sizes_Inr:
  "save_sizes L P base d S w = (Inr u, w') \<Longrightarrow> w' = w\<lparr>files := emitted L base d S P (files w)\<rparr>"
proof (induction S arbitrary: w)
  case Nil
  then show ?case by (simp add: return_io_def emitted_def)
next
  case (Cons sz S)
  from Cons.prems obtain w1 where
    a: "save_prefixes (resize L base (sz, sz)) d sz P w = (Inr (), w1)"
    and b: "save_sizes L P base d S w1 = (Inr u, w')"
    by (auto simp: bind_io_Inr)
  from Cons.IH[OF b] save_prefixes_Inr[OF a] show ?case by (simp add: emitted_def)
qed

lemma fold_upd_lookup:
  "fold (\<lambda>p g. g(k p \<mapsto> c)) P f q = (if q \<in> k ` set P then Some c else f q)"
  by (induction P arbitrary: f) auto

lemma emitted_snoc:
  "emitted L base d (S @ [a]) P f =
     fold (\<lambda>pfx g. g(joinpath d (icon_filename pfx a) \<mapsto> PNG (resize L base (a, a)) True)) P
       (emitted L base d S P f)"
  by (simp add: emitted_def)

lemma joinpath_icon_inj:
  "joinpath d (icon_filename p s) = joinpath d (icon_filename p' s') \<Longrightarrow> p = p' \<and> s = s'"
  by (simp add: joinpath_def icon_filename_inj)

lemma emitted_hit:
  "sz \<in> set S \<Longrightarrow> pfx \<in> set P \<Longrightarrow>
     emitted L base d S P f (joinpath d (icon_filename pfx sz)) = Some (PNG (resize L base (sz, sz)) True)"
proof (induction S rule: rev_induct)
  case Nil
  then show ?case by simp
next
  case (snoc a S)
  show ?case
  proof (cases "joinpath d (icon_filename pfx sz) \<in> (\<lambda>p. joinpath d (icon_filename p a)) ` set P")
    case True
    then obtain p where "joinpath d (icon_filename pfx sz) = joinpath d (icon_filename p a)" by auto
    then have "sz = a" using joinpath_icon_inj by blast
    with True show ?thesis by (simp add: emitted_snoc fold_upd_lookup)
  next
    case False
    with snoc.prems have "sz \<noteq> a" by auto
    with snoc have "emitted L base d S P f (joinpath d (icon_filename pfx sz))
        = Some (PNG (resize L base (sz, sz)) True)" by simp
    with False show ?thesis by (simp add: emitted_snoc fold_upd_lookup)
  qed
qed

lemma emitted_miss:
  "q \<notin> (\<lambda>(sz, pfx). joinpath d (icon_filename pfx sz)) ` (set S \<times> set P) \<Longrightarrow>
     emitted L base d S P f q = f q"
proof (induction S rule: rev_induct)
  case Nil
  then show ?case by (simp add: emitted_def)
next
  case (snoc a S)
  from snoc.prems have 1: "q \<notin> (\<lambda>p. joinpath d (icon_filename p a)) ` set P"
    and 2: "q \<notin> (\<lambda>(sz, pfx). joinpath d (icon_filename pfx sz)) ` (set S \<times> set P)"
    by auto
  from snoc.IH[OF 2] 1 show ?case by (simp add: emitted_snoc fold_upd_lookup)
qed

lemma card_targets:
  assumes "distinct S" "distinct P"
  shows "card ((\<lambda>(sz, pfx). joinpath d (icon_filename pfx sz)) ` (set S \<times> set P))
           = length S * length P"
proof -
  have "inj_on (\<lambda>(sz, pfx). joinpath d (icon_filename pfx sz)) (set S \<times> set P)"
    by (auto simp: inj_on_def dest: joinpath_icon_inj)
  then have "card ((\<lambda>(sz, pfx). joinpath d (icon_filename pfx sz)) ` (set S \<times> set P))
               = card (set S \<times> set P)"
    by (rule card_image)
  with assms show ?thesis by (simp add: card_cartesian_product distinct_card)
qed

lemma NamedTemporaryFile_Inr:
  "NamedTemporaryFile w = (Inr p, w1) \<Longrightarrow>
     p = tmp_name w \<and> w1 = w\<lparr>files := (files w)(tmp_name w \<mapsto> Empty)\<rparr> \<and>
     files w (tmp_name w) = None \<and> tmp_name w \<notin> dirs w"
  by (auto simp: NamedTemporaryFile_def split: option.splits if_splits)

lemma NamedTemporaryFile_Inl: "NamedTemporaryFile w = (Inl e, w1) \<Longrightarrow> w1 = w"
  by (auto simp: NamedTemporaryFile_def split: option.splits if_splits)

lemma centre_mode: "im_mode (centre_on_canvas L img cs ins) = ''RGBA''"
  by (simp add: centre_on_canvas_def Let_def paste_def Image_new_def)

lemma reopen_files:
  "files (snd (bind_io (write_file p c) (\<lambda>_. open_and_convert_img_to_rgb L p) w)) q
     = files w q \<or> q = p"
proof (cases "write_file p c w")
  case (Pair r w1)
  show ?thesis
  proof (cases r)
    case (Inl e)
    with Pair have "w1 = w" by (simp add: write_file_Inl)
    with Pair Inl show ?thesis by (simp add: bind_io_def)
  next
    case (Inr u)
    with Pair have "w1 = w\<lparr>files := (files w)(p \<mapsto> c)\<rparr>" by (simp add: write_file_Inr)
    with Pair Inr open_and_convert_snd[of L p w1] show ?thesis
      by (auto simp add: bind_io_def)
  qed
qed

lemma reopen_rest:
  "\<exists>f. snd (bind_io (write_file p c) (\<lambda>_. open_and_convert_img_to_rgb L p) w) = w\<lparr>files := f\<rparr>"
proof (cases "write_file p c w")
  case (Pair r w1)
  show ?thesis
  proof (cases r)
    case (Inl e)
    with Pair have "w1 = w" by (simp add: write_file_Inl)
    then have "snd (bind_io (write_file p c) (\<lambda>_. open_and_convert_img_to_rgb L p) w)
                 = w\<lparr>files := files w\<rparr>"
      using Pair Inl by (simp add: bind_io_def)
    then show ?thesis by blast
  next
    case (Inr u)
    with Pair have "w1 = w\<lparr>files := (files w)(p \<mapsto> c)\<rparr>" by (simp add: write_file_Inr)
    with Pair Inr open_and_convert_snd[of L p w1] show ?thesis
      by (auto simp add: bind_io_def)
  qed
qed

lemma centred_base_unfold:
  "NamedTemporaryFile w = (Inr p, w1) \<Longrightarrow>
     centred_base L original w =
       (fst (bind_io (write_file p (PNG (centre_on_canvas L original CANVAS_SIZE INNER_SIZE) False))
               (\<lambda>_. open_and_convert_img_to_rgb L p) w1),
        unlink p (snd (bind_io (write_file p (PNG (centre_on_canvas L original CANVAS_SIZE INNER_SIZE) False))
               (\<lambda>_. open_and_convert_img_to_rgb L p) w1)))"
  by (simp add: centred_base_def bind_io_def[where m = NamedTemporaryFile] case_prod_unfold)

lemma centred_base_snd: "snd (centred_base L original w) = w"
proof (cases "NamedTemporaryFile w")
  case (Pair r w1)
  show ?thesis
  proof (cases r)
    case (Inl e)
    with Pair show ?thesis
      by (simp add: centred_base_def bind_io_def NamedTemporaryFile_Inl)
  next
    case (Inr p)
    with Pair have p: "p = tmp_name w" and w1: "w1 = w\<lparr>files := (files w)(tmp_name w \<mapsto> Empty)\<rparr>"
      and free: "files w (tmp_name w) = None"
      using NamedTemporaryFile_Inr by blast+
    let ?body = "bind_io (write_file p (PNG (centre_on_canvas L original CANVAS_SIZE INNER_SIZE) False))
                   (\<lambda>_. open_and_convert_img_to_rgb L p) w1"
    obtain f where f: "snd ?body = w1\<lparr>files := f\<rparr>" using reopen_rest by blast
    from f have ff: "files (snd ?body) = f" by simp
    have "f q = files w q" if "q \<noteq> p" for q
    proof -
      from reopen_files[where p = p and w = w1 and q = q and L = L] that ff
      have "f q = files w1 q" by auto
      with that w1 p show ?thesis by simp
    qed
    then have "f(p := None) = files w" using free p by auto
    then have "unlink p (snd ?body) = w" using f w1 by (simp add: unlink_def)
    with Pair Inr show ?thesis
      by (simp add: centred_base_unfold)
  qed
qed

lemma centred_base_Inr:
  assumes "centred_base L original w = (Inr base, w')"
  shows "base = centre_on_canvas L original CANVAS_SIZE INNER_SIZE"
proof -
  let ?canvas = "centre_on_canvas L original CANVAS_SIZE INNER_SIZE"
  from assms obtain p w1 w2 where
    "write_file p (PNG ?canvas False) w1 = (Inr (), w2)"
    and o: "open_and_convert_img_to_rgb L p w2 = (Inr base, unlink p w')
            \<or> fst (open_and_convert_img_to_rgb L p w2) = Inr base"
    by (auto simp: centred_base_def bind_io_def split: prod.splits sum.splits)
  then have "files w2 p = Some (PNG ?canvas False)"
    using write_file_Inr by fastforce
  with o show ?thesis
    by (auto simp: open_and_convert_img_to_rgb_def bind_io_def return_io_def Image_open_def
          convert_def centre_mode split: prod.splits sum.splits option.splits)
qed

lemma generate_manifest_icons_Inr:
  assumes "generate_manifest_icons L S P base d w = (Inr u, w')"
  shows "w' = w\<lparr>dirs := dirs w \<union> set (tl (prefixes d)), files := emitted L base d S P (files w)\<rparr>"
proof -
  from assms obtain w1 where a: "mkdir d w = (Inr (), w1)"
    and b: "save_sizes L P base d S w1 = (Inr u, w')"
    by (auto simp: generate_manifest_icons_def bind_io_Inr)
  from save_sizes_Inr[OF b] mkdir_Inr[OF a] show ?thesis by simp
qed

lemma centred_or_not_Inr:
  assumes "(if c then centred_base L original else return_io original) w = (Inr base, w')"
  shows "w' = w \<and> base = (if c then centre_on_canvas L original CANVAS_SIZE INNER_SIZE else original)"
proof (cases c)
  case True
  with assms have cb: "centred_base L original w = (Inr base, w')" by simp
  from centred_base_snd[of L original w] cb have "w' = w" by simp
  with centred_base_Inr[OF cb] True show ?thesis by simp
next
  case False
  with assms show ?thesis by (simp add: return_io_def)
qed

lemma generate_assets_files:
  assumes "generate_assets L sp pf c w = (Inr u, w')"
  shows "\<exists>original. fst (open_and_convert_img_to_rgb L sp w) = Inr original \<and>
     files w' =
       (emitted L (if c then centre_on_canvas L original CANVAS_SIZE INNER_SIZE else original)
          (joinpath (Path pf) ''manifest'') MANIFEST_SIZES MANIFEST_PREFIXES (files w))
       (joinpath (Path pf) ''manifest.json'' \<mapsto> JSON (manifest_document MANIFEST_SIZES pf),
        joinpath (Path pf) ''logo.png'' \<mapsto> PNG (resize L original (192, 192)) True,
        joinpath (Path pf) ''favicon.ico'' \<mapsto>
          ICO (resize L original (32, 32)) [(32, 32), (48, 48), (64, 64), (128, 128), (256, 256)])"
proof -
  let ?out = "Path pf"
  from assms obtain w1 original w2 base w3 w4 w5 w6 w7 where
    s1: "mkdir ?out w = (Inr (), w1)"
    and s2: "open_and_convert_img_to_rgb L sp w1 = (Inr original, w2)"
    and s3: "(if c then centred_base L original else return_io original) w2 = (Inr base, w3)"
    and s4: "generate_manifest_icons L MANIFEST_SIZES MANIFEST_PREFIXES base
               (joinpath ?out ''manifest'') w3 = (Inr (), w4)"
    and s5: "generate_manifest_json MANIFEST_SIZES ?out pf w4 = (Inr (), w5)"
    and s6: "generate_logo L original (joinpath ?out ''logo.png'') 192 w5 = (Inr (), w6)"
    and s7: "generate_favicon L original (joinpath ?out ''favicon.ico'') w6 = (Inr (), w7)"
    and s8: "w' = print (''Ic'' @ [CHR 0xF4] @ ''nes et manifest.json sauvegard'' @ [CHR 0xE9]
                @ ''s dans '' @ [CHR 0x27] @ path_str w7 ?out @ ''/'' @ [CHR 0x27] @ ''.'') w7"
    unfolding generate_assets_def Let_def bind_io_Inr by auto
  from mkdir_Inr[OF s1] have w1: "w1 = w\<lparr>dirs := dirs w \<union> set (tl (prefixes ?out))\<rparr>" .
  from s2 have o: "fst (open_and_convert_img_to_rgb L sp w) = Inr original" and w2: "w2 = w1"
    unfolding w1 open_and_convert_dirs by simp_all
  from centred_or_not_Inr[OF s3] have w3: "w3 = w2"
    and base: "base = (if c then centre_on_canvas L original CANVAS_SIZE INNER_SIZE else original)"
    by simp_all
  from generate_manifest_icons_Inr[OF s4]
  have f4: "files w4 = emitted L base (joinpath ?out ''manifest'') MANIFEST_SIZES MANIFEST_PREFIXES (files w)"
    by (simp add: w3 w2 w1)
  from s5 have f5: "files w5 = (files w4)(joinpath ?out ''manifest.json'' \<mapsto> JSON (manifest_document MANIFEST_SIZES pf))"
    unfolding generate_manifest_json_def by (auto dest: write_file_Inr)
  from s6 have f6: "files w6 = (files w5)(joinpath ?out ''logo.png'' \<mapsto> PNG (resize L original (192, 192)) True)"
    unfolding generate_logo_def save_png_def by (auto dest: write_file_Inr)
  from s7 have f7: "files w7 = (files w6)(joinpath ?out ''favicon.ico'' \<mapsto>
          ICO (resize L original (32, 32)) [(32, 32), (48, 48), (64, 64), (128, 128), (256, 256)])"
    unfolding generate_favicon_def Let_def by (auto dest: write_file_Inr)
  from s8 have "files w' = files w7" by (simp add: print_def)
  with f7 f6 f5 f4 base o show ?thesis by simp
qed

lemma open0: "open_and_convert_img_to_rgb sample_pil [''logo.jpg''] sample_world = (Inr (convert sample_pil sample_image ''RGBA''), sample_world)"
  by (simp add: open_and_convert_img_to_rgb_def bind_io_def return_io_def Image_open_def sample_world_def)

lemma run0_True: "fst (generate_assets sample_pil [''logo.jpg''] ''myapp'' True sample_world) = Inr ()"
  apply (simp add: generate_assets_def Let_def bind_io_def return_io_def mkdir_def Path_def sample_world_def
       joinpath_def Image_open_def open_and_convert_img_to_rgb_def centred_base_def NamedTemporaryFile_def
       write_file_def unlink_def generate_manifest_icons_def MANIFEST_SIZES_def MANIFEST_PREFIXES_def
       save_png_def generate_manifest_json_def generate_logo_def generate_favicon_def convert_def centre_mode
       icon_filename_def)
  done

lemma str_sizes:
  "str 32 = ''32''" "str 48 = ''48''" "str 72 = ''72''" "str 128 = ''128''" "str 180 = ''180''"
  "str 192 = ''192''" "str 256 = ''256''" "str 384 = ''384''" "str 512 = ''512''"
  by code_simp+

lemma append_icons_eq:
  "append_icons S acc = acc @ concat (map (\<lambda>sz.
      [\<lparr>src = MANIFEST_ICON_BASE_PATH @ ''/icon-'' @ str sz @ ''x'' @ str sz @ ''.png'',
         sizes = str sz @ ''x'' @ str sz, type = ''image/png'', purpose = ''any''\<rparr>,
       \<lparr>src = MANIFEST_ICON_BASE_PATH @ ''/maskable-icon-'' @ str sz @ ''x'' @ str sz @ ''.png'',
         sizes = str sz @ ''x'' @ str sz, type = ''image/png'', purpose = ''maskable''\<rparr>]) S)"
  by (induction S arbitrary: acc) (simp_all add: Let_def)

lemma manifest_srcs:
  "map src (icons (manifest_document S pf)) =
     concat (map (\<lambda>sz. map (\<lambda>pfx. ''/assets/media/img/manifest/'' @ icon_filename pfx sz)
                          MANIFEST_PREFIXES) S)"
  by (simp add: manifest_document_def append_icons_eq map_concat comp_def MANIFEST_PREFIXES_def
        icon_filename_def MANIFEST_ICON_BASE_PATH_def)

lemma manifest_length: "length (icons (manifest_document S pf)) = length S * 2"
  by (simp add: manifest_document_def append_icons_eq length_concat comp_def sum_list_triv)

text \<open>
  Claim C4. When the manifest is written, by \<open>generate_manifest_json\<close> into any output
  directory or by a whole run of \<open>generate_assets\<close> for any project folder, the
  \<open>src\<close> of every icon entry of the document in \<open>manifest.json\<close> is the fixed
  base path \<open>/assets/media/img/manifest/\<close> followed by the file name
  \<open><prefix>-<size>x<size>.png\<close>; neither the output directory nor the project folder
  occurs in it.
\<close>

theorem manifest_src_uses_deployment_path:
  "(generate_manifest_json MANIFEST_SIZES out_dir project_folder w = (Inr u, w') \<longrightarrow>
      (\<exists>doc. files w' (joinpath out_dir ''manifest.json'') = Some (JSON doc) \<and>
         map src (icons doc) =
           concat (map (\<lambda>sz. map (\<lambda>pfx. ''/assets/media/img/manifest/'' @ icon_filename pfx sz)
                                MANIFEST_PREFIXES) MANIFEST_SIZES)))
   \<and> (generate_assets L source_path project_folder center w = (Inr u, w') \<longrightarrow>
      (\<exists>doc. files w' (joinpath (Path project_folder) ''manifest.json'') = Some (JSON doc) \<and>
         map src (icons doc) =
           concat (map (\<lambda>sz. map (\<lambda>pfx. ''/assets/media/img/manifest/'' @ icon_filename pfx sz)
                                MANIFEST_PREFIXES) MANIFEST_SIZES)))"
proof (intro conjI impI)
  assume "generate_manifest_json MANIFEST_SIZES out_dir project_folder w = (Inr u, w')"
  then have "files w' (joinpath out_dir ''manifest.json'')
               = Some (JSON (manifest_document MANIFEST_SIZES project_folder))"
    unfolding generate_manifest_json_def by (auto dest: write_file_Inr)
  then show "\<exists>doc. files w' (joinpath out_dir ''manifest.json'') = Some (JSON doc) \<and>
         map src (icons doc) =
           concat (map (\<lambda>sz. map (\<lambda>pfx. ''/assets/media/img/manifest/'' @ icon_filename pfx sz)
                                MANIFEST_PREFIXES) MANIFEST_SIZES)"
    using manifest_srcs by blast
next
  assume "generate_assets L source_path project_folder center w = (Inr u, w')"
  from generate_assets_files[OF this]
  have "files w' (joinpath (Path project_folder) ''manifest.json'')
               = Some (JSON (manifest_document MANIFEST_SIZES project_folder))"
    by (auto simp: joinpath_def)
  then show "\<exists>doc. files w' (joinpath (Path project_folder) ''manifest.json'') = Some (JSON doc) \<and>
         map src (icons doc) =
           concat (map (\<lambda>sz. map (\<lambda>pfx. ''/assets/media/img/manifest/'' @ icon_filename pfx sz)
                                MANIFEST_PREFIXES) MANIFEST_SIZES)"
    using manifest_srcs by blast
qed

text \<open>The sample world: one source picture, nothing else, no failing operation.\<close>

lemma run0_pair:
  "generate_assets sample_pil [''logo.jpg''] ''myapp'' True sample_world
     = (Inr (), snd (generate_assets sample_pil [''logo.jpg''] ''myapp'' True sample_world))"
  using run0_True by (simp add: prod_eq_iff)

text \<open>
  The run on the sample world succeeds, and its \<open>manifest.json\<close> lists these eighteen
  \<open>src\<close> paths.
\<close>

theorem manifest_src_uses_deployment_path_witness:
  "\<exists>doc. files (snd (generate_assets sample_pil [''logo.jpg''] ''myapp'' True sample_world))
            [''myapp'', ''manifest.json''] = Some (JSON doc) \<and>
         map src (icons doc) =
           [''/assets/media/img/manifest/icon-32x32.png'',
            ''/assets/media/img/manifest/maskable-icon-32x32.png'',
            ''/assets/media/img/manifest/icon-48x48.png'',
            ''/assets/media/img/manifest/maskable-icon-48x48.png'',
            ''/assets/media/img/manifest/icon-72x72.png'',
            ''/assets/media/img/manifest/maskable-icon-72x72.png'',
            ''/assets/media/img/manifest/icon-128x128.png'',
            ''/assets/media/img/manifest/maskable-icon-128x128.png'',
            ''/assets/media/img/manifest/icon-180x180.png'',
            ''/assets/media/img/manifest/maskable-icon-180x180.png'',
            ''/assets/media/img/manifest/icon-192x192.png'',
            ''/assets/media/img/manifest/maskable-icon-192x192.png'',
            ''/assets/media/img/manifest/icon-256x256.png'',
            ''/assets/media/img/manifest/maskable-icon-256x256.png'',
            ''/assets/media/img/manifest/icon-384x384.png'',
            ''/assets/media/img/manifest/maskable-icon-384x384.png'',
            ''/assets/media/img/manifest/icon-512x512.png'',
            ''/assets/media/img/manifest/maskable-icon-512x512.png'']"
  using manifest_src_uses_deployment_path
          [where out_dir = "[''myapp'']" and project_folder = "''myapp''" and w = sample_world
             and u = "()" and L = sample_pil and source_path = "[''logo.jpg'']" and center = True
             and w' = "snd (generate_assets sample_pil [''logo.jpg''] ''myapp'' True sample_world)"]
        run0_pair
  by (simp add: Path_def joinpath_def MANIFEST_SIZES_def MANIFEST_PREFIXES_def icon_filename_def
        str_sizes)

text \<open>
  Claim C10. The icon list of the manifest document follows \<open>MANIFEST_SIZES\<close>, which
  is strictly ascending; for each size the entry with purpose \<open>any\<close> (prefix
  \<open>icon\<close>) comes first and the entry with purpose \<open>maskable\<close> (prefix
  \<open>maskable-icon\<close>) right after it.
\<close>

theorem manifest_icon_order:
  "icons (manifest_document MANIFEST_SIZES project_folder) =
     concat (map (\<lambda>sz.
       [\<lparr>src = MANIFEST_ICON_BASE_PATH @ ''/icon-'' @ str sz @ ''x'' @ str sz @ ''.png'',
          sizes = str sz @ ''x'' @ str sz, type = ''image/png'', purpose = ''any''\<rparr>,
        \<lparr>src = MANIFEST_ICON_BASE_PATH @ ''/maskable-icon-'' @ str sz @ ''x'' @ str sz @ ''.png'',
          sizes = str sz @ ''x'' @ str sz, type = ''image/png'', purpose = ''maskable''\<rparr>])
       MANIFEST_SIZES)
   \<and> sorted_wrt (<) MANIFEST_SIZES
   \<and> map (\<lambda>i. (sizes i, purpose i)) (icons (manifest_document MANIFEST_SIZES project_folder)) =
       [(''32x32'', ''any''), (''32x32'', ''maskable''),
        (''48x48'', ''any''), (''48x48'', ''maskable''),
        (''72x72'', ''any''), (''72x72'', ''maskable''),
        (''128x128'', ''any''), (''128x128'', ''maskable''),
        (''180x180'', ''any''), (''180x180'', ''maskable''),
        (''192x192'', ''any''), (''192x192'', ''maskable''),
        (''256x256'', ''any''), (''256x256'', ''maskable''),
        (''384x384'', ''any''), (''384x384'', ''maskable''),
        (''512x512'', ''any''), (''512x512'', ''maskable'')]"
proof (intro conjI)
  show "icons (manifest_document MANIFEST_SIZES project_folder) =
     concat (map (\<lambda>sz.
       [\<lparr>src = MANIFEST_ICON_BASE_PATH @ ''/icon-'' @ str sz @ ''x'' @ str sz @ ''.png'',
          sizes = str sz @ ''x'' @ str sz, type = ''image/png'', purpose = ''any''\<rparr>,
        \<lparr>src = MANIFEST_ICON_BASE_PATH @ ''/maskable-icon-'' @ str sz @ ''x'' @ str sz @ ''.png'',
          sizes = str sz @ ''x'' @ str sz, type = ''image/png'', purpose = ''maskable''\<rparr>])
       MANIFEST_SIZES)"
    by (simp add: manifest_document_def append_icons_eq)
  show "sorted_wrt (<) MANIFEST_SIZES"
    by (simp add: MANIFEST_SIZES_def)
  show "map (\<lambda>i. (sizes i, purpose i)) (icons (manifest_document MANIFEST_SIZES project_folder)) =
       [(''32x32'', ''any''), (''32x32'', ''maskable''),
        (''48x48'', ''any''), (''48x48'', ''maskable''),
        (''72x72'', ''any''), (''72x72'', ''maskable''),
        (''128x128'', ''any''), (''128x128'', ''maskable''),
        (''180x180'', ''any''), (''180x180'', ''maskable''),
        (''192x192'', ''any''), (''192x192'', ''maskable''),
        (''256x256'', ''any''), (''256x256'', ''maskable''),
        (''384x384'', ''any''), (''384x384'', ''maskable''),
        (''512x512'', ''any''), (''512x512'', ''maskable'')]"
    by (simp add: manifest_document_def append_icons_eq MANIFEST_SIZES_def str_sizes)
qed

text \<open>
  Claim C2. For every source image the canvas has exactly the configured size 500 x 500
  and mode RGBA; the source is resized to 320 x 320 and pasted at the offset
  \<open>((500 - 320) div 2, (500 - 320) div 2) = (90, 90)\<close>: a pixel inside the pasted box
  is the blend of the transparent canvas with the resized source under the source's own
  alpha, and every pixel outside the box is fully transparent. The last two conjuncts
  say the same for any canvas and inner size, the offset being
  \<open>(canvas - inner) div 2\<close> on each axis.
\<close>

theorem canvas_compositor_centres:
  "im_size (centre_on_canvas L img CANVAS_SIZE INNER_SIZE) = (500, 500)
   \<and> im_mode (centre_on_canvas L img CANVAS_SIZE INNER_SIZE) = ''RGBA''
   \<and> im_size (resize L img INNER_SIZE) = (320, 320)
   \<and> ((int (fst CANVAS_SIZE) - int (fst INNER_SIZE)) div 2,
       (int (snd CANVAS_SIZE) - int (snd INNER_SIZE)) div 2) = (90, 90)
   \<and> im_pixels (centre_on_canvas L img CANVAS_SIZE INNER_SIZE) x y =
       (if 90 \<le> x \<and> x < 90 + 320 \<and> 90 \<le> y \<and> y < 90 + 320
        then BLEND L (alpha (im_pixels (resize L img INNER_SIZE) (x - 90) (y - 90)))
               (0, 0, 0, 0) (im_pixels (resize L img INNER_SIZE) (x - 90) (y - 90))
        else (0, 0, 0, 0))
   \<and> im_size (centre_on_canvas L img canvas_size inner_size) = canvas_size
   \<and> im_pixels (centre_on_canvas L img canvas_size inner_size) x y =
       (if in_box ((int (fst canvas_size) - int (fst inner_size)) div 2,
                   (int (snd canvas_size) - int (snd inner_size)) div 2)
             inner_size canvas_size x y
        then BLEND L (alpha (im_pixels (resize L img inner_size)
                        (x - (int (fst canvas_size) - int (fst inner_size)) div 2)
                        (y - (int (snd canvas_size) - int (snd inner_size)) div 2)))
               (0, 0, 0, 0)
               (im_pixels (resize L img inner_size)
                        (x - (int (fst canvas_size) - int (fst inner_size)) div 2)
                        (y - (int (snd canvas_size) - int (snd inner_size)) div 2))
        else (0, 0, 0, 0))"
  by (auto simp add: centre_on_canvas_def Let_def paste_def Image_new_def resize_def in_box_def
        CANVAS_SIZE_def INNER_SIZE_def)

lemma parse_bool_reject:
  "lower (strip val) \<noteq> ''true'' \<Longrightarrow> lower (strip val) \<noteq> ''false'' \<Longrightarrow>
     parse_bool val flag w =
       (Inl (SystemExit 1),
        print (''Error: '' @ quoted flag @ '' must be 'true' or 'false', got '' @ quoted val @ ''.'') w)"
  by (simp add: parse_bool_def Let_def)

lemma normalised_samples:
  "lower (strip ''true'') = ''true''" "lower (strip '' TRUE '') = ''true''"
  "lower (strip ''Maybe'') = ''maybe''" "lower '' TRUE '' = '' true ''"
  by code_simp+

lemma parse_bool_true: "parse_bool ''true'' flag w = (Inr True, w)"
  by (simp add: parse_bool_def Let_def normalised_samples)

lemma main_two_args:
  "cli_args argv w = [filename, project_folder] \<Longrightarrow>
     main L argv w =
       (case bind_io (resolve_source_path filename)
               (\<lambda>source_path. generate_assets L source_path project_folder True) w of
          (Inl (FileNotFoundError msg), w2) \<Rightarrow>
             (Inl (SystemExit 1), print (''File error: '' @ msg) w2)
        | (Inl (OSError msg), w2) \<Rightarrow>
             (Inl (SystemExit 1), print (''I/O error: '' @ msg) w2)
        | (Inl (SystemExit c), w2) \<Rightarrow> (Inl (SystemExit c), w2)
        | (Inr u, w2) \<Rightarrow> (Inr (), w2))"
  by (simp add: main_def Let_def return_io_def)

lemma main_three_args:
  "cli_args argv w = [filename, project_folder, val] \<Longrightarrow>
     main L argv w =
       (case parse_bool val ''center'' w of
          (Inl e, w1) \<Rightarrow> (Inl e, w1)
        | (Inr center, w1) \<Rightarrow>
       (case bind_io (resolve_source_path filename)
               (\<lambda>source_path. generate_assets L source_path project_folder center) w1 of
          (Inl (FileNotFoundError msg), w2) \<Rightarrow>
             (Inl (SystemExit 1), print (''File error: '' @ msg) w2)
        | (Inl (OSError msg), w2) \<Rightarrow>
             (Inl (SystemExit 1), print (''I/O error: '' @ msg) w2)
        | (Inl (SystemExit c), w2) \<Rightarrow> (Inl (SystemExit c), w2)
        | (Inr u, w2) \<Rightarrow> (Inr (), w2)))"
  by (simp add: main_def Let_def)

lemma parse_bool_world:
  "parse_bool val flag w = (Inr b, w1) \<Longrightarrow> w1 = w"
  by (auto simp: parse_bool_def Let_def split: if_splits)

lemma resolve_missing:
  "\<not> is_file w (joinpath Path_cwd filename) \<Longrightarrow>
     bind_io (resolve_source_path filename) f w =
       (Inl (FileNotFoundError (quoted filename @ '' not found in the current directory (''
               @ path_str w Path_cwd @ '').'')), w)"
  by (simp add: bind_io_def resolve_source_path_def Let_def)

text \<open>
  Claim C7. With exactly three arguments, when the third one, stripped of surrounding
  white space and put in lower case, is neither \<open>true\<close> nor \<open>false\<close>, \<open>main\<close>
  ends with exit code 1, changes nothing but the standard output (no file, no
  directory), and prints one line that names the flag \<open>center\<close> and the value as it
  was given. With two arguments the run is the run with \<open>true\<close> as the third.
\<close>

theorem invalid_center_flag_exits:
  "(cli_args argv w = [filename, project_folder, val] \<and>
    lower (strip val) \<noteq> ''true'' \<and> lower (strip val) \<noteq> ''false'' \<longrightarrow>
      main L argv w =
        (Inl (SystemExit 1),
         print (''Error: 'center' must be 'true' or 'false', got '' @ quoted val @ ''.'') w)
      \<and> exit_code (fst (main L argv w)) = 1
      \<and> dirs (snd (main L argv w)) = dirs w
      \<and> files (snd (main L argv w)) = files w)
   \<and> (cli_args argv w = [filename, project_folder] \<longrightarrow>
        main L argv w = main L (Some [prog, filename, project_folder, ''true'']) w)"
proof (intro conjI impI)
  assume a: "cli_args argv w = [filename, project_folder, val] \<and>
    lower (strip val) \<noteq> ''true'' \<and> lower (strip val) \<noteq> ''false''"
  then have m: "main L argv w =
        (Inl (SystemExit 1),
         print (''Error: '' @ quoted ''center'' @ '' must be 'true' or 'false', got '' @ quoted val @ ''.'') w)"
    by (simp add: main_three_args parse_bool_reject)
  then show "main L argv w =
        (Inl (SystemExit 1),
         print (''Error: 'center' must be 'true' or 'false', got '' @ quoted val @ ''.'') w)"
    by (simp add: quoted_def)
  from m show "exit_code (fst (main L argv w)) = 1" by (simp add: exit_code_def)
  from m show "dirs (snd (main L argv w)) = dirs w" by (simp add: print_def)
  from m show "files (snd (main L argv w)) = files w" by (simp add: print_def)
next
  assume a: "cli_args argv w = [filename, project_folder]"
  have "cli_args (Some [prog, filename, project_folder, ''true'']) w
          = [filename, project_folder, ''true'']"
    by (simp add: cli_args_def)
  from main_three_args[OF this] main_two_args[OF a]
  show "main L argv w = main L (Some [prog, filename, project_folder, ''true'']) w"
    by (simp add: parse_bool_true)
qed

theorem invalid_center_flag_exits_witness:
  "main sample_pil (Some [''main.py'', ''logo.jpg'', ''myapp'', ''Maybe'']) sample_world =
     (Inl (SystemExit 1),
      sample_world\<lparr>stdout := [''Error: 'center' must be 'true' or 'false', got 'Maybe'.'']\<rparr>)
   \<and> main sample_pil None sample_world = main sample_pil (Some [''main.py'', ''logo.jpg'', ''myapp'', ''true'']) sample_world"
  using invalid_center_flag_exits
          [where argv = "Some [''main.py'', ''logo.jpg'', ''myapp'', ''Maybe'']" and w = sample_world
             and filename = "''logo.jpg''" and project_folder = "''myapp''" and val = "''Maybe''"
             and L = sample_pil]
        invalid_center_flag_exits
          [where argv = None and w = sample_world and prog = "''main.py''"
             and filename = "''logo.jpg''" and project_folder = "''myapp''" and L = sample_pil]
  by (simp add: cli_args_def sample_world_def normalised_samples print_def quoted_def)

text \<open>
  Claim C7 as the specification states it fails: the third argument \<open>" TRUE "\<close> (with
  the blanks) is not \<open>true\<close> or \<open>false\<close> in any letter case, yet it is accepted as
  \<open>true\<close>: the run ends with exit code 0 and has written its files.
\<close>

theorem padded_flag_is_accepted:
  "lower '' TRUE '' \<noteq> ''true'' \<and> lower '' TRUE '' \<noteq> ''false''
   \<and> fst (main sample_pil (Some [''main.py'', ''logo.jpg'', ''myapp'', '' TRUE '']) sample_world) = Inr ()
   \<and> exit_code (fst (main sample_pil (Some [''main.py'', ''logo.jpg'', ''myapp'', '' TRUE '']) sample_world)) = 0
   \<and> [''myapp''] \<in> dirs (snd (main sample_pil (Some [''main.py'', ''logo.jpg'', ''myapp'', '' TRUE '']) sample_world))"
proof -
  have c: "cli_args (Some [''main.py'', ''logo.jpg'', ''myapp'', '' TRUE '']) sample_world
             = [''logo.jpg'', ''myapp'', '' TRUE '']"
    by (simp add: cli_args_def)
  have p: "parse_bool '' TRUE '' ''center'' sample_world = (Inr True, sample_world)"
    by (simp add: parse_bool_def Let_def normalised_samples)
  have r: "resolve_source_path ''logo.jpg'' sample_world = (Inr [''logo.jpg''], sample_world)"
    by (simp add: resolve_source_path_def Let_def is_file_def joinpath_def Path_cwd_def sample_world_def)
  have d: "[''myapp''] \<in> dirs (snd (generate_assets sample_pil [''logo.jpg''] ''myapp'' True sample_world))"
    by (simp add: generate_assets_def Let_def bind_io_def return_io_def mkdir_def Path_def sample_world_def
       joinpath_def Image_open_def open_and_convert_img_to_rgb_def centred_base_def NamedTemporaryFile_def
       write_file_def unlink_def generate_manifest_icons_def MANIFEST_SIZES_def MANIFEST_PREFIXES_def
       save_png_def generate_manifest_json_def generate_logo_def generate_favicon_def convert_def centre_mode
       icon_filename_def print_def)
  obtain w' where g: "generate_assets sample_pil [''logo.jpg''] ''myapp'' True sample_world = (Inr (), w')"
    using run0_True by (cases "generate_assets sample_pil [''logo.jpg''] ''myapp'' True sample_world") auto
  have m: "main sample_pil (Some [''main.py'', ''logo.jpg'', ''myapp'', '' TRUE '']) sample_world = (Inr (), w')"
    by (simp add: main_three_args[OF c] p bind_io_def r g)
  from d g have "[''myapp''] \<in> dirs w'" by simp
  with m show ?thesis
    by (simp add: normalised_samples exit_code_def)
qed

text \<open>
  Claim C8. When the first argument does not name an existing file in the working
  directory, whatever the other arguments are, \<open>main\<close> ends with exit code 1, prints
  one line, and leaves directories and files as they were. With a valid argument list
  the line is the file error of \<open>resolve_source_path\<close>.
\<close>

theorem missing_source_exits:
  assumes "cli_args argv w = filename # rest"
    and "\<not> is_file w (joinpath Path_cwd filename)"
  shows "fst (main L argv w) = Inl (SystemExit 1)
     \<and> exit_code (fst (main L argv w)) = 1
     \<and> (\<exists>line. snd (main L argv w) = print line w)
     \<and> dirs (snd (main L argv w)) = dirs w
     \<and> files (snd (main L argv w)) = files w
     \<and> (if length rest = 1
        then snd (main L argv w) =
               print (''File error: '' @ quoted filename @ '' not found in the current directory (''
                        @ path_str w Path_cwd @ '').'') w
        else True)"
proof -
  define fe where "fe = ''File error: '' @ quoted filename
                          @ '' not found in the current directory ('' @ path_str w Path_cwd @ '').''"
  have missing: "bind_io (resolve_source_path filename) f w = (Inl (FileNotFoundError
          (quoted filename @ '' not found in the current directory ('' @ path_str w Path_cwd @ '').'')), w)"
    for f :: "path \<Rightarrow> unit io"
    using assms(2) by (rule resolve_missing)
  have "\<exists>line. main L argv w = (Inl (SystemExit 1), print line w)
              \<and> (length rest = 1 \<longrightarrow> line = fe)"
  proof (cases rest)
    case Nil
    with assms(1) have "main L argv w = (Inl (SystemExit 1), print usage w)"
      by (simp add: main_def Let_def)
    with Nil show ?thesis by auto
  next
    case (Cons project_folder rest1)
    note r = this
    show ?thesis
    proof (cases rest1)
      case Nil
      with r assms(1) have "cli_args argv w = [filename, project_folder]" by simp
      from main_two_args[OF this]
      have "main L argv w = (Inl (SystemExit 1), print fe w)"
        unfolding fe_def by (simp add: missing)
      then show ?thesis by blast
    next
      case (Cons val rest2)
      note r1 = this
      have len: "length rest \<noteq> 1" using r r1 by simp
      show ?thesis
      proof (cases rest2)
        case Nil
        with r r1 assms(1) have c: "cli_args argv w = [filename, project_folder, val]" by simp
        show ?thesis
        proof (cases "parse_bool val ''center'' w")
          case (Pair res w1)
          show ?thesis
          proof (cases res)
            case (Inl e)
            with Pair have "e = SystemExit 1 \<and> (\<exists>line. w1 = print line w)"
              by (auto simp: parse_bool_def Let_def split: if_splits)
            then obtain line where "e = SystemExit 1" "w1 = print line w" by blast
            with Pair Inl main_three_args[OF c]
            have "main L argv w = (Inl (SystemExit 1), print line w)" by simp
            with len show ?thesis by blast
          next
            case (Inr b)
            with Pair have "w1 = w" by (simp add: parse_bool_world)
            with Pair Inr main_three_args[OF c]
            have "main L argv w = (Inl (SystemExit 1), print fe w)"
              unfolding fe_def by (simp add: missing)
            then show ?thesis by blast
          qed
        qed
      next
        case (Cons a rest3)
        with r r1 assms(1) have "main L argv w = (Inl (SystemExit 1), print usage w)"
          by (simp add: main_def Let_def)
        with len show ?thesis by blast
      qed
    qed
  qed
  then obtain line where m: "main L argv w = (Inl (SystemExit 1), print line w)"
    and l: "length rest = 1 \<longrightarrow> line = fe"
    by blast
  from m have e: "\<exists>line. snd (main L argv w) = print line w" by auto
  from m have 1: "fst (main L argv w) = Inl (SystemExit 1)"
    and 2: "dirs (snd (main L argv w)) = dirs w"
    and 3: "files (snd (main L argv w)) = files w"
    by (simp_all add: print_def)
  from 1 have 4: "exit_code (fst (main L argv w)) = 1" by (simp add: exit_code_def)
  from m l have 5: "length rest = 1 \<Longrightarrow> snd (main L argv w) = print fe w" by simp
  from 1 4 e 2 3 5 show ?thesis unfolding fe_def by simp
qed

theorem missing_source_exits_witness:
  "main sample_pil (Some [''main.py'', ''absent.png'', ''myapp'']) sample_world =
     (Inl (SystemExit 1),
      sample_world\<lparr>stdout := [''File error: 'absent.png' not found in the current directory ().'']\<rparr>)"
proof -
  have c: "cli_args (Some [''main.py'', ''absent.png'', ''myapp'']) sample_world = ''absent.png'' # [''myapp'']"
    by (simp add: cli_args_def)
  have n: "\<not> is_file sample_world (joinpath Path_cwd ''absent.png'')"
    by (simp add: is_file_def joinpath_def Path_cwd_def sample_world_def)
  from missing_source_exits[OF c n, of sample_pil] show ?thesis
    by (simp add: prod_eq_iff print_def quoted_def Path_cwd_def sample_world_def)
qed

lemma resize_BLEND: "resize (L\<lparr>BLEND := b\<rparr>) = resize L"
  by (simp add: resize_def fun_eq_iff)

lemma convert_BLEND: "convert (L\<lparr>BLEND := b\<rparr>) = convert L"
  by (simp add: convert_def fun_eq_iff)

lemma save_sizes_BLEND: "save_sizes (L\<lparr>BLEND := b\<rparr>) P base d S = save_sizes L P base d S"
  by (induction S) (simp_all add: resize_BLEND)

lemma generate_assets_BLEND:
  "generate_assets (L\<lparr>BLEND := b\<rparr>) source_path project_folder False
     = generate_assets L source_path project_folder False"
  by (simp add: generate_assets_def Let_def open_and_convert_img_to_rgb_def convert_BLEND
        generate_manifest_icons_def save_sizes_BLEND generate_logo_def generate_favicon_def
        resize_BLEND)

lemma run0_False: "fst (generate_assets sample_pil [''logo.jpg''] ''myapp'' False sample_world) = Inr ()"
  by (simp add: generate_assets_def Let_def bind_io_def return_io_def mkdir_def Path_def sample_world_def
       joinpath_def Image_open_def open_and_convert_img_to_rgb_def
       write_file_def generate_manifest_icons_def MANIFEST_SIZES_def MANIFEST_PREFIXES_def
       save_png_def generate_manifest_json_def generate_logo_def generate_favicon_def convert_def
       icon_filename_def)

lemma icon_path_files:
  assumes "generate_assets L sp pf c w = (Inr u, w')"
    and "fst (open_and_convert_img_to_rgb L sp w) = Inr original"
    and "sz \<in> set MANIFEST_SIZES" and "pfx \<in> set MANIFEST_PREFIXES"
  shows "files w' (joinpath (joinpath (Path pf) ''manifest'') (icon_filename pfx sz)) =
           Some (PNG (resize L (if c then centre_on_canvas L original CANVAS_SIZE INNER_SIZE
                                else original) (sz, sz)) True)"
proof -
  from generate_assets_files[OF assms(1)] assms(2)
  have "files w' (joinpath (joinpath (Path pf) ''manifest'') (icon_filename pfx sz)) =
      emitted L (if c then centre_on_canvas L original CANVAS_SIZE INNER_SIZE else original)
          (joinpath (Path pf) ''manifest'') MANIFEST_SIZES MANIFEST_PREFIXES (files w)
          (joinpath (joinpath (Path pf) ''manifest'') (icon_filename pfx sz))"
    by (auto simp: joinpath_def Path_def)
  with emitted_hit[OF assms(3,4)] show ?thesis by simp
qed

text \<open>
  Claim C3. Whenever a run with \<open>center = False\<close> succeeds, every manifest icon file
  holds the resize of the normalised original itself, whatever its size is, to
  \<open>size x size\<close>. The run does not consult the compositor: replacing the blend that
  \<open>paste\<close> uses by any other leaves the whole run as it is.
\<close>

theorem uncentred_icons_from_original:
  assumes "generate_assets L source_path project_folder False w = (Inr u, w')"
  shows "\<exists>original. fst (open_and_convert_img_to_rgb L source_path w) = Inr original \<and>
     (\<forall>sz\<in>set MANIFEST_SIZES. \<forall>pfx\<in>set MANIFEST_PREFIXES.
        files w' (joinpath (joinpath (Path project_folder) ''manifest'') (icon_filename pfx sz))
          = Some (PNG (resize L original (sz, sz)) True))
     \<and> generate_assets (L\<lparr>BLEND := blend\<rparr>) source_path project_folder False w
         = generate_assets L source_path project_folder False w"
proof -
  from generate_assets_files[OF assms] obtain original where
    o: "fst (open_and_convert_img_to_rgb L source_path w) = Inr original" by blast
  have "\<forall>sz\<in>set MANIFEST_SIZES. \<forall>pfx\<in>set MANIFEST_PREFIXES.
        files w' (joinpath (joinpath (Path project_folder) ''manifest'') (icon_filename pfx sz))
          = Some (PNG (resize L original (sz, sz)) True)"
    using icon_path_files[OF assms o] by simp
  with o show ?thesis by (simp add: generate_assets_BLEND)
qed

theorem uncentred_icons_from_original_witness:
  "files (snd (generate_assets sample_pil [''logo.jpg''] ''myapp'' False sample_world))
     [''myapp'', ''manifest'', ''icon-512x512.png'']
     = Some (PNG (resize sample_pil (convert sample_pil sample_image ''RGBA'') (512, 512)) True)"
proof -
  have r: "generate_assets sample_pil [''logo.jpg''] ''myapp'' False sample_world
             = (Inr (), snd (generate_assets sample_pil [''logo.jpg''] ''myapp'' False sample_world))"
    using run0_False by (simp add: prod_eq_iff)
  from uncentred_icons_from_original[OF r] open0 show ?thesis
    by (simp add: MANIFEST_SIZES_def MANIFEST_PREFIXES_def joinpath_def Path_def icon_filename_def
          str_sizes)
qed

text \<open>
  Claim C9. Whenever a run succeeds, with centring or without, \<open>logo.png\<close> is the resize
  of the normalised original to 192 x 192 and \<open>favicon.ico\<close> is the ICO save of its
  resize to 32 x 32 with the five declared sizes; a successful run with the other value
  of \<open>center\<close> writes the same two files.
\<close>

theorem logo_and_favicon_from_original:
  assumes "generate_assets L source_path project_folder center w = (Inr u, w')"
  shows "\<exists>original. fst (open_and_convert_img_to_rgb L source_path w) = Inr original
     \<and> files w' (joinpath (Path project_folder) ''logo.png'')
         = Some (PNG (resize L original (192, 192)) True)
     \<and> files w' (joinpath (Path project_folder) ''favicon.ico'')
         = Some (ICO (resize L original (32, 32))
                   [(32, 32), (48, 48), (64, 64), (128, 128), (256, 256)])
     \<and> (generate_assets L source_path project_folder (\<not> center) w = (Inr u2, w2) \<longrightarrow>
          files w2 (joinpath (Path project_folder) ''logo.png'')
            = files w' (joinpath (Path project_folder) ''logo.png'')
        \<and> files w2 (joinpath (Path project_folder) ''favicon.ico'')
            = files w' (joinpath (Path project_folder) ''favicon.ico''))"
proof -
  have one: "\<exists>original. fst (open_and_convert_img_to_rgb L source_path w) = Inr original
     \<and> files v (joinpath (Path project_folder) ''logo.png'')
         = Some (PNG (resize L original (192, 192)) True)
     \<and> files v (joinpath (Path project_folder) ''favicon.ico'')
         = Some (ICO (resize L original (32, 32))
                   [(32, 32), (48, 48), (64, 64), (128, 128), (256, 256)])"
    if "generate_assets L source_path project_folder c w = (Inr x, v)" for c x v
    using generate_assets_files[OF that] by (auto simp: joinpath_def Path_def)
  from one[OF assms] obtain original where
    o: "fst (open_and_convert_img_to_rgb L source_path w) = Inr original"
    and l: "files w' (joinpath (Path project_folder) ''logo.png'')
         = Some (PNG (resize L original (192, 192)) True)"
    and f: "files w' (joinpath (Path project_folder) ''favicon.ico'')
         = Some (ICO (resize L original (32, 32))
                   [(32, 32), (48, 48), (64, 64), (128, 128), (256, 256)])"
    by blast
  have "files w2 (joinpath (Path project_folder) ''logo.png'')
            = files w' (joinpath (Path project_folder) ''logo.png'')
        \<and> files w2 (joinpath (Path project_folder) ''favicon.ico'')
            = files w' (joinpath (Path project_folder) ''favicon.ico'')"
    if "generate_assets L source_path project_folder (\<not> center) w = (Inr u2, w2)"
    using one[OF that] o l f by auto
  with o l f show ?thesis by blast
qed

theorem logo_and_favicon_from_original_witness:
  "files (snd (generate_assets sample_pil [''logo.jpg''] ''myapp'' True sample_world)) [''myapp'', ''logo.png'']
     = Some (PNG (resize sample_pil (convert sample_pil sample_image ''RGBA'') (192, 192)) True)
   \<and> files (snd (generate_assets sample_pil [''logo.jpg''] ''myapp'' True sample_world)) [''myapp'', ''favicon.ico'']
     = Some (ICO (resize sample_pil (convert sample_pil sample_image ''RGBA'') (32, 32))
               [(32, 32), (48, 48), (64, 64), (128, 128), (256, 256)])
   \<and> files (snd (generate_assets sample_pil [''logo.jpg''] ''myapp'' False sample_world)) [''myapp'', ''logo.png'']
     = files (snd (generate_assets sample_pil [''logo.jpg''] ''myapp'' True sample_world)) [''myapp'', ''logo.png'']
   \<and> files (snd (generate_assets sample_pil [''logo.jpg''] ''myapp'' False sample_world)) [''myapp'', ''favicon.ico'']
     = files (snd (generate_assets sample_pil [''logo.jpg''] ''myapp'' True sample_world)) [''myapp'', ''favicon.ico'']"
proof -
  have r: "generate_assets sample_pil [''logo.jpg''] ''myapp'' False sample_world
             = (Inr (), snd (generate_assets sample_pil [''logo.jpg''] ''myapp'' False sample_world))"
    using run0_False by (simp add: prod_eq_iff)
  from logo_and_favicon_from_original[OF run0_pair, of "()"
         "snd (generate_assets sample_pil [''logo.jpg''] ''myapp'' False sample_world)"] r open0
  show ?thesis
    by (simp add: joinpath_def Path_def)
qed

text \<open>
  Claim C6. With \<open>center = True\<close> the base image that reaches the variant renderer is
  exactly what \<open>centre_on_canvas\<close> returned in memory: saving it as PNG and decoding
  it again changes nothing, and the icon files of a successful run are resizes of that
  canvas. The temporary file never outlives the block: whatever the block returns, an
  image or the exception of a failed step, it leaves the world as it found it, and the
  file that \<open>NamedTemporaryFile\<close> created is gone.
\<close>

theorem centring_roundtrip_and_cleanup:
  "(centred_base L original w = (Inr base, w') \<longrightarrow>
      base = centre_on_canvas L original CANVAS_SIZE INNER_SIZE)
   \<and> snd (centred_base L original w) = w
   \<and> (NamedTemporaryFile w = (Inr tmp_path, w1) \<longrightarrow>
        files w1 tmp_path = Some Empty \<and> files (snd (centred_base L original w)) tmp_path = None)
   \<and> (generate_assets L source_path project_folder True w = (Inr u, w2) \<longrightarrow>
        (\<exists>orig. fst (open_and_convert_img_to_rgb L source_path w) = Inr orig \<and>
           (\<forall>sz\<in>set MANIFEST_SIZES. \<forall>pfx\<in>set MANIFEST_PREFIXES.
              files w2 (joinpath (joinpath (Path project_folder) ''manifest'') (icon_filename pfx sz))
                = Some (PNG (resize L (centre_on_canvas L orig CANVAS_SIZE INNER_SIZE) (sz, sz))
                          True))))"
proof (intro conjI impI)
  assume "centred_base L original w = (Inr base, w')"
  then show "base = centre_on_canvas L original CANVAS_SIZE INNER_SIZE"
    by (rule centred_base_Inr)
next
  show "snd (centred_base L original w) = w" by (rule centred_base_snd)
next
  assume "NamedTemporaryFile w = (Inr tmp_path, w1)"
  from NamedTemporaryFile_Inr[OF this] show "files w1 tmp_path = Some Empty" by simp
next
  assume "NamedTemporaryFile w = (Inr tmp_path, w1)"
  from NamedTemporaryFile_Inr[OF this]
  show "files (snd (centred_base L original w)) tmp_path = None"
    by (simp add: centred_base_snd)
next
  assume a: "generate_assets L source_path project_folder True w = (Inr u, w2)"
  from generate_assets_files[OF a] obtain orig where
    o: "fst (open_and_convert_img_to_rgb L source_path w) = Inr orig" by blast
  have "\<forall>sz\<in>set MANIFEST_SIZES. \<forall>pfx\<in>set MANIFEST_PREFIXES.
              files w2 (joinpath (joinpath (Path project_folder) ''manifest'') (icon_filename pfx sz))
                = Some (PNG (resize L (centre_on_canvas L orig CANVAS_SIZE INNER_SIZE) (sz, sz))
                          True)"
    using icon_path_files[OF a o] by simp
  with o show "\<exists>orig. fst (open_and_convert_img_to_rgb L source_path w) = Inr orig \<and>
           (\<forall>sz\<in>set MANIFEST_SIZES. \<forall>pfx\<in>set MANIFEST_PREFIXES.
              files w2 (joinpath (joinpath (Path project_folder) ''manifest'') (icon_filename pfx sz))
                = Some (PNG (resize L (centre_on_canvas L orig CANVAS_SIZE INNER_SIZE) (sz, sz))
                          True))"
    by blast
qed

lemma centred0:
  "centred_base sample_pil (convert sample_pil sample_image ''RGBA'') sample_world
     = (Inr (centre_on_canvas sample_pil (convert sample_pil sample_image ''RGBA'') CANVAS_SIZE INNER_SIZE), sample_world)"
  by (simp add: centred_base_def bind_io_def return_io_def NamedTemporaryFile_def write_file_def
        open_and_convert_img_to_rgb_def Image_open_def unlink_def convert_def centre_mode sample_world_def)

lemma centred_full:
  "centred_base sample_pil (convert sample_pil sample_image ''RGBA'') sample_world_full_disk
     = (Inl (OSError ''No space left on device''), sample_world_full_disk)"
  by (simp add: centred_base_def bind_io_def return_io_def NamedTemporaryFile_def write_file_def
        unlink_def sample_world_full_disk_def sample_world_def)

lemma tmp0:
  "NamedTemporaryFile sample_world_full_disk
     = (Inr [''tmp'', ''tmpk3x9.png''],
        sample_world_full_disk\<lparr>files := (files sample_world_full_disk)([''tmp'', ''tmpk3x9.png''] \<mapsto> Empty)\<rparr>)"
  by (simp add: NamedTemporaryFile_def sample_world_full_disk_def sample_world_def)

theorem centring_roundtrip_and_cleanup_witness:
  "fst (centred_base sample_pil (convert sample_pil sample_image ''RGBA'') sample_world)
     = Inr (centre_on_canvas sample_pil (convert sample_pil sample_image ''RGBA'') CANVAS_SIZE INNER_SIZE)
   \<and> fst (centred_base sample_pil (convert sample_pil sample_image ''RGBA'') sample_world_full_disk)
     = Inl (OSError ''No space left on device'')
   \<and> files (snd (centred_base sample_pil (convert sample_pil sample_image ''RGBA'') sample_world_full_disk))
       [''tmp'', ''tmpk3x9.png''] = None
   \<and> files (snd (generate_assets sample_pil [''logo.jpg''] ''myapp'' True sample_world))
       [''myapp'', ''manifest'', ''icon-32x32.png'']
     = Some (PNG (resize sample_pil
                    (centre_on_canvas sample_pil (convert sample_pil sample_image ''RGBA'') CANVAS_SIZE INNER_SIZE)
                    (32, 32)) True)"
  using centring_roundtrip_and_cleanup
          [where L = sample_pil and original = "convert sample_pil sample_image ''RGBA''" and w = sample_world_full_disk
             and tmp_path = "[''tmp'', ''tmpk3x9.png'']"
             and ?w1.0 = "sample_world_full_disk\<lparr>files := (files sample_world_full_disk)([''tmp'', ''tmpk3x9.png''] \<mapsto> Empty)\<rparr>"
             and source_path = "[''logo.jpg'']" and project_folder = "''myapp''"]
        centring_roundtrip_and_cleanup
          [where L = sample_pil and original = "convert sample_pil sample_image ''RGBA''" and w = sample_world
             and base = "centre_on_canvas sample_pil (convert sample_pil sample_image ''RGBA'') CANVAS_SIZE INNER_SIZE"
             and w' = sample_world
             and source_path = "[''logo.jpg'']" and project_folder = "''myapp''" and u = "()"
             and ?w2.0 = "snd (generate_assets sample_pil [''logo.jpg''] ''myapp'' True sample_world)"]
        centred0 centred_full tmp0 run0_pair open0
  by (simp add: MANIFEST_SIZES_def MANIFEST_PREFIXES_def joinpath_def Path_def icon_filename_def
        str_sizes)

text \<open>
  Claim C1. Let \<open>S\<close> be a size set as the data model has it (positive sizes, none
  repeated) and let the purpose tags be the module's two, with the prefixes
  \<open>MANIFEST_PREFIXES\<close>. A successful \<open>generate_manifest_icons\<close> writes exactly the
  \<open>|S| * |P|\<close> files \<open><prefix>-<size>x<size>.png\<close> of the manifest directory, each the
  resize of the base to its size, and changes no other file. The icon list of the
  manifest document has \<open>|S| * |P|\<close> entries, and their \<open>src\<close> names and \<open>sizes\<close>
  strings are, in order, those of the files written. The module's own sizes are such a
  size set: 9 sizes and 2 purposes, 18 files and 18 entries.
\<close>

theorem icon_files_and_manifest_entries:
  assumes "distinct S" and "\<forall>sz\<in>set S. 0 < sz"
    and "generate_manifest_icons L S MANIFEST_PREFIXES base manifest_dir w = (Inr u, w')"
  shows "card ((\<lambda>(sz, pfx). joinpath manifest_dir (icon_filename pfx sz))
                 ` (set S \<times> set MANIFEST_PREFIXES))
           = length S * length MANIFEST_PREFIXES
     \<and> (\<forall>sz\<in>set S. \<forall>pfx\<in>set MANIFEST_PREFIXES.
          files w' (joinpath manifest_dir (icon_filename pfx sz))
            = Some (PNG (resize L base (sz, sz)) True))
     \<and> (\<forall>q. q \<notin> (\<lambda>(sz, pfx). joinpath manifest_dir (icon_filename pfx sz))
                      ` (set S \<times> set MANIFEST_PREFIXES)
          \<longrightarrow> files w' q = files w q)
     \<and> length (icons (manifest_document S project_folder)) = length S * length MANIFEST_PREFIXES
     \<and> map (\<lambda>i. (src i, sizes i)) (icons (manifest_document S project_folder)) =
         concat (map (\<lambda>sz. map (\<lambda>pfx. (''/assets/media/img/manifest/'' @ icon_filename pfx sz,
                                         str sz @ ''x'' @ str sz)) MANIFEST_PREFIXES) S)
     \<and> distinct MANIFEST_SIZES \<and> (\<forall>sz\<in>set MANIFEST_SIZES. 0 < sz)
     \<and> length MANIFEST_SIZES * length MANIFEST_PREFIXES = 18
     \<and> length (icons (manifest_document MANIFEST_SIZES project_folder)) = 18"
proof -
  from generate_manifest_icons_Inr[OF assms(3)]
  have f: "files w' = emitted L base manifest_dir S MANIFEST_PREFIXES (files w)" by simp
  have dp: "distinct MANIFEST_PREFIXES" by (simp add: MANIFEST_PREFIXES_def)
  have 1: "card ((\<lambda>(sz, pfx). joinpath manifest_dir (icon_filename pfx sz))
                   ` (set S \<times> set MANIFEST_PREFIXES))
           = length S * length MANIFEST_PREFIXES"
    using assms(1) dp by (rule card_targets)
  have 2: "\<forall>sz\<in>set S. \<forall>pfx\<in>set MANIFEST_PREFIXES.
          files w' (joinpath manifest_dir (icon_filename pfx sz))
            = Some (PNG (resize L base (sz, sz)) True)"
    unfolding f by (simp add: emitted_hit)
  have 3: "\<forall>q. q \<notin> (\<lambda>(sz, pfx). joinpath manifest_dir (icon_filename pfx sz))
                      ` (set S \<times> set MANIFEST_PREFIXES)
          \<longrightarrow> files w' q = files w q"
    unfolding f using emitted_miss by blast
  have 4: "length (icons (manifest_document S project_folder)) = length S * length MANIFEST_PREFIXES"
    by (simp add: manifest_length MANIFEST_PREFIXES_def)
  have 5: "map (\<lambda>i. (src i, sizes i)) (icons (manifest_document S project_folder)) =
         concat (map (\<lambda>sz. map (\<lambda>pfx. (''/assets/media/img/manifest/'' @ icon_filename pfx sz,
                                         str sz @ ''x'' @ str sz)) MANIFEST_PREFIXES) S)"
    by (simp add: manifest_document_def append_icons_eq map_concat comp_def MANIFEST_PREFIXES_def
          icon_filename_def MANIFEST_ICON_BASE_PATH_def)
  have 6: "distinct MANIFEST_SIZES \<and> (\<forall>sz\<in>set MANIFEST_SIZES. 0 < sz)
     \<and> length MANIFEST_SIZES * length MANIFEST_PREFIXES = 18"
    by (simp add: MANIFEST_SIZES_def MANIFEST_PREFIXES_def)
  have 7: "length (icons (manifest_document MANIFEST_SIZES project_folder)) = 18"
    by (simp add: manifest_length MANIFEST_SIZES_def)
  from 1 2 3 4 5 6 7 show ?thesis by blast
qed

lemma icons0:
  "fst (generate_manifest_icons sample_pil MANIFEST_SIZES MANIFEST_PREFIXES sample_image [''myapp'', ''manifest'']
          sample_world) = Inr ()"
  by (simp add: bind_io_def return_io_def mkdir_def sample_world_def joinpath_def write_file_def
        generate_manifest_icons_def MANIFEST_SIZES_def MANIFEST_PREFIXES_def save_png_def
        icon_filename_def)

theorem icon_files_and_manifest_entries_witness:
  "card ((\<lambda>(sz, pfx). joinpath [''myapp'', ''manifest''] (icon_filename pfx sz))
           ` (set MANIFEST_SIZES \<times> set MANIFEST_PREFIXES)) = 18
   \<and> files (snd (generate_manifest_icons sample_pil MANIFEST_SIZES MANIFEST_PREFIXES sample_image
                   [''myapp'', ''manifest''] sample_world))
       [''myapp'', ''manifest'', ''maskable-icon-512x512.png'']
     = Some (PNG (resize sample_pil sample_image (512, 512)) True)
   \<and> length (icons (manifest_document MANIFEST_SIZES ''myapp'')) = 18"
proof -
  have d: "distinct MANIFEST_SIZES" "\<forall>sz\<in>set MANIFEST_SIZES. 0 < sz"
    by (simp_all add: MANIFEST_SIZES_def)
  have r: "generate_manifest_icons sample_pil MANIFEST_SIZES MANIFEST_PREFIXES sample_image
             [''myapp'', ''manifest''] sample_world
           = (Inr (), snd (generate_manifest_icons sample_pil MANIFEST_SIZES MANIFEST_PREFIXES
                             sample_image [''myapp'', ''manifest''] sample_world))"
    using icons0 by (simp add: prod_eq_iff)
  have n: "joinpath [''myapp'', ''manifest''] (icon_filename ''maskable-icon'' 512)
             = [''myapp'', ''manifest'', ''maskable-icon-512x512.png'']"
    by (simp add: joinpath_def icon_filename_def str_sizes)
  have m: "(512::nat) \<in> set MANIFEST_SIZES" "''maskable-icon'' \<in> set MANIFEST_PREFIXES"
    by (simp_all add: MANIFEST_SIZES_def MANIFEST_PREFIXES_def)
  have l: "length MANIFEST_SIZES * length MANIFEST_PREFIXES = 18"
    by (simp add: MANIFEST_SIZES_def MANIFEST_PREFIXES_def)
  note t = icon_files_and_manifest_entries[OF d r, of "''myapp''"]
  from t l have 1: "card ((\<lambda>(sz, pfx). joinpath [''myapp'', ''manifest''] (icon_filename pfx sz))
           ` (set MANIFEST_SIZES \<times> set MANIFEST_PREFIXES)) = 18"
    by simp
  from t have "\<forall>sz\<in>set MANIFEST_SIZES. \<forall>pfx\<in>set MANIFEST_PREFIXES.
      files (snd (generate_manifest_icons sample_pil MANIFEST_SIZES MANIFEST_PREFIXES sample_image
                   [''myapp'', ''manifest''] sample_world))
        (joinpath [''myapp'', ''manifest''] (icon_filename pfx sz))
      = Some (PNG (resize sample_pil sample_image (sz, sz)) True)"
    by (rule conjunct2[THEN conjunct1])
  with m have "files (snd (generate_manifest_icons sample_pil MANIFEST_SIZES MANIFEST_PREFIXES
                   sample_image [''myapp'', ''manifest''] sample_world))
        (joinpath [''myapp'', ''manifest''] (icon_filename ''maskable-icon'' 512))
      = Some (PNG (resize sample_pil sample_image (512, 512)) True)"
    by blast
  with n have 2: "files (snd (generate_manifest_icons sample_pil MANIFEST_SIZES MANIFEST_PREFIXES
                   sample_image [''myapp'', ''manifest''] sample_world))
       [''myapp'', ''manifest'', ''maskable-icon-512x512.png'']
     = Some (PNG (resize sample_pil sample_image (512, 512)) True)"
    by simp
  from t have 3: "length (icons (manifest_document MANIFEST_SIZES ''myapp'')) = 18" by simp
  from 1 2 3 show ?thesis by simp
qed

text \<open>
  Claim C5. \<open>generate_favicon\<close> resizes the source once, to 32 x 32, and saves that
  image as ICO with the five declared sizes. Of the declared sizes the encoder embeds
  those that are not bigger than the image it is given: the 32 x 32 one alone.
\<close>

theorem favicon_declares_five_embeds_one:
  assumes "generate_favicon L source dest w = (Inr u, w')"
  shows "files w' dest = Some (ICO (resize L source (32, 32))
                                [(32, 32), (48, 48), (64, 64), (128, 128), (256, 256)])
     \<and> ico_embedded_sizes (ICO (resize L source (32, 32))
                                [(32, 32), (48, 48), (64, 64), (128, 128), (256, 256)])
         = [(32, 32)]"
proof -
  from assms have "files w' dest = Some (ICO (resize L source (32, 32))
                                [(32, 32), (48, 48), (64, 64), (128, 128), (256, 256)])"
    unfolding generate_favicon_def Let_def by (auto dest: write_file_Inr)
  then show ?thesis by (simp add: ico_embedded_sizes_def resize_def)
qed

theorem favicon_declares_five_embeds_one_witness:
  "files (snd (generate_favicon sample_pil (convert sample_pil sample_image ''RGBA'') [''myapp'', ''favicon.ico''] sample_world))
     [''myapp'', ''favicon.ico'']
     = Some (ICO (resize sample_pil (convert sample_pil sample_image ''RGBA'') (32, 32))
               [(32, 32), (48, 48), (64, 64), (128, 128), (256, 256)])
   \<and> ico_embedded_sizes (ICO (resize sample_pil (convert sample_pil sample_image ''RGBA'') (32, 32))
               [(32, 32), (48, 48), (64, 64), (128, 128), (256, 256)]) = [(32, 32)]"
proof -
  have "fst (generate_favicon sample_pil (convert sample_pil sample_image ''RGBA'') [''myapp'', ''favicon.ico''] sample_world)
          = Inr ()"
    by (simp add: generate_favicon_def Let_def write_file_def sample_world_def)
  then have r: "generate_favicon sample_pil (convert sample_pil sample_image ''RGBA'') [''myapp'', ''favicon.ico''] sample_world
          = (Inr (), snd (generate_favicon sample_pil (convert sample_pil sample_image ''RGBA'')
                            [''myapp'', ''favicon.ico''] sample_world))"
    by (simp add: prod_eq_iff)
  from favicon_declares_five_embeds_one[OF r] show ?thesis .
qed

end
